theory Spec2Isabelle
  imports Complex_Main "HOL-Library.Monad_Syntax"
begin

section \<open>Data model of the notification endpoint router\<close>

text \<open>
  The layout constant of the package, as the source writes it.
\<close>

definition amzTimeFormat :: string where
  "amzTimeFormat = ''2006-01-02T15:04:05.999999999Z''"

text \<open>
  The values a decoded \<^verbatim>\<open>map[string]interface{}\<close> can hold. A JSON number is a
  float64 in Go; every finite float64 is a rational. \<open>JNull\<close> is the nil interface.
\<close>

datatype jvalue =
    JNull
  | JBool bool
  | JNumber rat
  | JString string
  | JArray "jvalue list"
  | JObject "(string \<times> jvalue) list"

type_synonym jmap = "string \<rightharpoonup> jvalue"

text \<open>
  A callback is a function value of the embedding application. The router never looks
  inside it: it only spawns it. The type variable \<open>'cb\<close> stands for the (non-nil)
  function values, \<open>'t\<close> for \<^verbatim>\<open>time.Time\<close>.
\<close>

record 'cb topicDescription =
  TopicARN :: string
  Callback :: 'cb

text \<open>
  \<open>Logger\<close> records whether the logger pointer is set; \<open>topics\<close> is \<open>None\<close> for
  the nil map of a fresh \<^verbatim>\<open>Server{}\<close>.
\<close>

record 'cb Server =
  Logger :: bool
  topics :: "(string \<rightharpoonup> 'cb topicDescription) option"

record 't Message =
  Subject :: string
  Message :: string
  MessageId :: string
  Timestamp :: 't

text \<open>
  The part of \<^verbatim>\<open>*http.Request\<close> the router reads: the URL path, the header (read
  with \<^verbatim>\<open>Header.Get\<close>, which yields the empty string for an absent key) and the
  bytes the body reader delivers before it ends.
\<close>

record Request =
  URL_Path :: string
  Header :: "string \<rightharpoonup> string"
  Body :: string

definition Header_Get :: "(string \<rightharpoonup> string) \<Rightarrow> string \<Rightarrow> string" where
  "Header_Get h k = (case h k of None \<Rightarrow> [] | Some v \<Rightarrow> v)"

text \<open>What \<^verbatim>\<open>simpleResponse\<close> leaves in the response writer.\<close>

record Response =
  ContentType :: string
  StatusCode :: nat
  Written :: string

text \<open>Run-time panics of the Go code.\<close>

datatype panic =
    SliceBounds
  | MakeSliceLen
  | InterfaceConversion string

text \<open>
  The observable effects, in the order the code performs them: diagnostics printed with
  \<^verbatim>\<open>fmt.Printf\<close>, lines given to the logger, the outbound GET, closing the request
  body, and the \<^verbatim>\<open>go td.Callback(...)\<close> statement (\<open>None\<close> is the nil message).
\<close>

datatype diag =
    NoContentLength
  | ErrorReadingBody
  | ErrorParsingJson
  | ErrorConfirming

datatype logline =
    LogAdding string string
  | LogConfirmed string string
  | LogGotMessage string string
  | LogMessageId string

datatype ('cb, 't) event =
    Printf diag
  | Logged logline
  | Get string
  | BodyClose
  | Go 'cb "'t Message option"

text \<open>
  The library functions the router calls are parameters of the model:
  \<^item> \<open>Sscanf_d s\<close> is \<^verbatim>\<open>fmt.Sscanf(s, "%d", &nbytes)\<close>: \<open>Some nbytes\<close> when one item was
    scanned without error, \<open>None\<close> otherwise;
  \<^item> \<open>json_Unmarshal b\<close> is \<^verbatim>\<open>json.Unmarshal(b, &data)\<close> on a fresh empty map:
    \<open>Inl ()\<close> for an error, \<open>Inr None\<close> when the map is set to nil (the JSON text
    \<^verbatim>\<open>null\<close>), \<open>Inr (Some m)\<close> for the decoded map;
  \<^item> \<open>maxAlloc\<close> is the largest length \<^verbatim>\<open>make([]byte, n, n)\<close> accepts: the allocation
    limit of the Go runtime (2 to the power 48 on 64-bit Linux); above it \<^verbatim>\<open>make\<close> panics;
  \<^item> \<open>http_Get u\<close> is true when \<^verbatim>\<open>http.Get(u)\<close> returns a nil error;
  \<^item> \<open>time_Now_UTC\<close> is \<^verbatim>\<open>time.Now().In(time.UTC)\<close>, \<open>time_Format\<close> and
    \<open>time_Parse\<close> are the methods of package time (\<open>None\<close> is a parse error), and
    \<open>time_Zero\<close> is the zero \<^verbatim>\<open>time.Time\<close> that a failed parse returns.
\<close>

record 't env =
  Sscanf_d :: "string \<Rightarrow> int option"
  json_Unmarshal :: "string \<Rightarrow> unit + jmap option"
  maxAlloc :: int
  http_Get :: "string \<Rightarrow> bool"
  time_Now_UTC :: 't
  time_Format :: "'t \<Rightarrow> string \<Rightarrow> string"
  time_Parse :: "string \<Rightarrow> string \<Rightarrow> 't option"
  time_Zero :: 't

section \<open>The operations\<close>

text \<open>
  \<^verbatim>\<open>AddTopic\<close>. The slice expression \<^verbatim>\<open>endpoint[:1]\<close> panics on the empty string.
  The result is the updated server and what the logger received.
\<close>

definition AddTopic ::
  "'cb Server \<Rightarrow> string \<Rightarrow> string \<Rightarrow> 'cb \<Rightarrow> panic + ('cb Server \<times> logline list)" where
  "AddTopic s topicARN endpoint callback =
     (let t = \<lparr>TopicARN = topicARN, Callback = callback\<rparr> in
      if length endpoint < 1 then Inl SliceBounds
      else
        let endpoint' = (if take 1 endpoint \<noteq> ''/'' then ''/'' @ endpoint else endpoint);
            s' = (case topics s of
                    None \<Rightarrow> s\<lparr>topics := Some [endpoint' \<mapsto> t]\<rparr>
                  | Some m \<Rightarrow> s\<lparr>topics := Some (m(endpoint' \<mapsto> t))\<rparr>)
        in Inr (s', if Logger s then [LogAdding endpoint' topicARN] else []))"

definition simpleResponse :: "nat \<Rightarrow> string \<Rightarrow> Response" where
  "simpleResponse code msg =
     \<lparr>ContentType = ''text/plain; charset=utf-8'', StatusCode = code,
      Written = msg @ [CHR 0x0A]\<rparr>"

text \<open>
  \<^verbatim>\<open>extractJsonBody\<close>. \<^verbatim>\<open>make([]byte, nbytes, nbytes)\<close> panics for a negative
  length and for a length above the allocation limit \<open>maxAlloc\<close>, before anything is
  read. A body that delivers \<open>nbytes\<close> bytes is taken to be within the limit (no server is
  sent a body of 2 to the power 48 bytes), so the limit decides only when the body is
  shorter than \<open>nbytes\<close>; running out of memory below the limit is outside the model. \<^verbatim>\<open>io.ReadFull\<close> fills the buffer
  when the body delivers at least \<open>nbytes\<close> bytes and fails otherwise. The result \<open>None\<close>
  is the nil map.
\<close>

definition extractJsonBody ::
  "'t env \<Rightarrow> Request \<Rightarrow> ('cb, 't) event list \<times> (panic + jmap option)" where
  "extractJsonBody e r =
     (case Sscanf_d e (Header_Get (Header r) ''Content-Length'') of
        None \<Rightarrow> ([Printf NoContentLength], Inr None)
      | Some nbytes \<Rightarrow>
          if nbytes < 0 then ([], Inl MakeSliceLen)
          else if int (length (Body r)) < nbytes then
            (if maxAlloc e < nbytes then ([], Inl MakeSliceLen)
             else ([Printf ErrorReadingBody], Inr None))
          else
            let jsonBytes = take (nat nbytes) (Body r) in
            if Header_Get (Header r) ''x-amz-sns-rawdelivery'' = ''true'' then
              ([], Inr (Some [''Subject'' \<mapsto> JString [],
                              ''Message'' \<mapsto> JString jsonBytes,
                              ''MessageId'' \<mapsto> JString (Header_Get (Header r) ''x-amz-sns-message-id''),
                              ''Timestamp'' \<mapsto> JString (time_Format e (time_Now_UTC e) amzTimeFormat)]))
            else
              (case json_Unmarshal e jsonBytes of
                 Inl _ \<Rightarrow> ([Printf ErrorParsingJson], Inr None)
               | Inr data \<Rightarrow> ([], Inr data)))"

text \<open>
  \<^verbatim>\<open>data[k]\<close> is the nil interface for an absent key, and \<^verbatim>\<open>data[k].(string)\<close>
  panics unless the value is a string.
\<close>

definition map_index :: "jmap \<Rightarrow> string \<Rightarrow> jvalue" where
  "map_index data k = (case data k of None \<Rightarrow> JNull | Some v \<Rightarrow> v)"

definition assert_string :: "jmap \<Rightarrow> string \<Rightarrow> panic + string" where
  "assert_string data k =
     (case map_index data k of JString s \<Rightarrow> Inr s | _ \<Rightarrow> Inl (InterfaceConversion k))"

definition confirmSub ::
  "'t env \<Rightarrow> 'cb Server \<Rightarrow> 'cb topicDescription \<Rightarrow> Request
     \<Rightarrow> ('cb, 't) event list \<times> (panic + unit)" where
  "confirmSub e s td r =
     (case extractJsonBody e r of
        (out, Inl p) \<Rightarrow> (out, Inl p)
      | (out, Inr None) \<Rightarrow> (out, Inr ())
      | (out, Inr (Some data)) \<Rightarrow>
          (case assert_string data ''SubscribeURL'' of
             Inl p \<Rightarrow> (out, Inl p)
           | Inr subURL \<Rightarrow>
               if \<not> http_Get e subURL
               then (out @ [Get subURL, Printf ErrorConfirming], Inr ())
               else (out @ [Get subURL, BodyClose]
                       @ (if Logger s then [Logged (LogConfirmed (URL_Path r) (TopicARN td))] else [])
                       @ [Go (Callback td) None], Inr ())))"

definition processMessage ::
  "'t env \<Rightarrow> 'cb Server \<Rightarrow> 'cb topicDescription \<Rightarrow> Request
     \<Rightarrow> ('cb, 't) event list \<times> (panic + unit)" where
  "processMessage e s td r =
     (case extractJsonBody e r of
        (out, Inl p) \<Rightarrow> (out, Inl p)
      | (out, Inr None) \<Rightarrow> (out, Inr ())
      | (out, Inr (Some data)) \<Rightarrow>
          (case assert_string data ''Timestamp'' of
             Inl p \<Rightarrow> (out, Inl p)
           | Inr timeStr \<Rightarrow>
               let tm = (case time_Parse e amzTimeFormat timeStr of
                           None \<Rightarrow> time_Zero e | Some t \<Rightarrow> t) in
               (case assert_string data ''Message'' of
                  Inl p \<Rightarrow> (out, Inl p)
                | Inr message \<Rightarrow>
                    (case assert_string data ''MessageId'' of
                       Inl p \<Rightarrow> (out, Inl p)
                     | Inr messageId \<Rightarrow>
                         (case (if map_index data ''Subject'' \<noteq> JNull
                                then assert_string data ''Subject'' else Inr []) of
                            Inl p \<Rightarrow> (out, Inl p)
                          | Inr subject \<Rightarrow>
                              let msg = \<lparr>Subject = subject, Message = message,
                                         MessageId = messageId, Timestamp = tm\<rparr> in
                              (out @ (if Logger s
                                      then [Logged (LogGotMessage (URL_Path r) (TopicARN td)),
                                            Logged (LogMessageId messageId)]
                                      else [])
                                   @ [Go (Callback td) (Some msg)], Inr ()))))))"

text \<open>Indexing the topics map; a nil map has no entry.\<close>

definition topics_at :: "'cb Server \<Rightarrow> string \<Rightarrow> 'cb topicDescription option" where
  "topics_at s p = (case topics s of None \<Rightarrow> None | Some m \<Rightarrow> m p)"

text \<open>
  \<^verbatim>\<open>ServeHTTP\<close>: the effects of the request and either the panic that ended the handler
  (\<^verbatim>\<open>simpleResponse\<close> is not reached then, so nothing is written) or the response written.
\<close>

definition ServeHTTP ::
  "'t env \<Rightarrow> 'cb Server \<Rightarrow> Request \<Rightarrow> ('cb, 't) event list \<times> (panic + Response)" where
  "ServeHTTP e s r =
     (case topics_at s (URL_Path r) of
        Some td \<Rightarrow>
          let amzTopic = Header_Get (Header r) ''x-amz-sns-topic-arn'' in
          if TopicARN td = amzTopic then
            let amzType = Header_Get (Header r) ''x-amz-sns-message-type'' in
            if amzType = ''SubscriptionConfirmation'' then
              (case confirmSub e s td r of
                 (out, Inl p) \<Rightarrow> (out, Inl p)
               | (out, Inr _) \<Rightarrow> (out, Inr (simpleResponse 200 ''ok'')))
            else if amzType = ''Notification'' then
              (case processMessage e s td r of
                 (out, Inl p) \<Rightarrow> (out, Inl p)
               | (out, Inr _) \<Rightarrow> (out, Inr (simpleResponse 200 ''ok'')))
            else ([], Inr (simpleResponse 501 ''not implemented''))
          else ([], Inr (simpleResponse 400 ''bad request''))
      | None \<Rightarrow> ([], Inr (simpleResponse 404 ''not found'')))"

text \<open>The callback invocations and the outbound requests of a trace.\<close>

fun invocations :: "('cb, 't) event list \<Rightarrow> ('cb \<times> 't Message option) list" where
  "invocations [] = []"
| "invocations (Go cb m # es) = (cb, m) # invocations es"
| "invocations (_ # es) = invocations es"

fun outbound :: "('cb, 't) event list \<Rightarrow> string list" where
  "outbound [] = []"
| "outbound (Get u # es) = u # outbound es"
| "outbound (_ # es) = outbound es"

section \<open>The timestamp layout\<close>

text \<open>
  Modelled from the spec: the methods \<^verbatim>\<open>Format\<close> and \<^verbatim>\<open>Parse\<close> of Go's package
  time are not among the sources. The definitions below follow the spec's fixed pattern
  \<^verbatim>\<open>YYYY-MM-DDThh:mm:ss.ssssssssZ\<close>, read as the layout \<open>amzTimeFormat\<close> is read by
  package time: a year of at least four digits, two-digit month, day, hour, minute and
  second, a fraction of up to nine digits whose trailing zeros (and the point, when the
  fraction is zero) are left out, and a literal \<open>Z\<close>.

  An instant is given by its civil reading in UTC, with nanoseconds. The year is an
  integer: \<^verbatim>\<open>time.Time\<close> also holds instants after year 9999 and before year 0.
\<close>

record instant =
  year :: int
  month :: nat
  day :: nat
  hour :: nat
  minute :: nat
  second :: nat
  nsec :: nat

definition isLeap :: "int \<Rightarrow> bool" where
  "isLeap y = (y mod 4 = 0 \<and> (y mod 100 \<noteq> 0 \<or> y mod 400 = 0))"

definition daysIn :: "nat \<Rightarrow> int \<Rightarrow> nat" where
  "daysIn m y =
     (if m = 2 then (if isLeap y then 29 else 28)
      else if m = 4 \<or> m = 6 \<or> m = 9 \<or> m = 11 then 30 else 31)"

text \<open>The civil readings that an instant can have.\<close>

definition valid_instant :: "instant \<Rightarrow> bool" where
  "valid_instant t =
     (1 \<le> month t \<and> month t \<le> 12 \<and> 1 \<le> day t \<and> day t \<le> daysIn (month t) (year t)
      \<and> hour t < 24 \<and> minute t < 60 \<and> second t < 60 \<and> nsec t < 1000000000)"

definition utod :: "nat \<Rightarrow> char" where
  "utod d = char_of (48 + d)"

definition isDigit :: "char \<Rightarrow> bool" where
  "isDigit c = (48 \<le> (of_char c :: nat) \<and> (of_char c :: nat) \<le> 57)"

definition digit_val :: "char \<Rightarrow> nat" where
  "digit_val c = of_char c - 48"

text \<open>The decimal digits of a number, most significant first.\<close>

fun decimal :: "nat \<Rightarrow> string" where
  "decimal n = (if n < 10 then [utod n] else decimal (n div 10) @ [utod (n mod 10)])"

declare decimal.simps [simp del]

text \<open>\<open>appendInt\<close>: a sign for a negative number, then the digits padded with zeros to the width.\<close>

definition appendInt :: "int \<Rightarrow> nat \<Rightarrow> string" where
  "appendInt x width =
     (let ds = decimal (nat \<bar>x\<bar>) in
      (if x < 0 then ''-'' else []) @ replicate (width - length ds) (CHR ''0'') @ ds)"

definition trim_zeros :: "string \<Rightarrow> string" where
  "trim_zeros b = rev (dropWhile (\<lambda>c. c = CHR ''0'') (rev b))"

text \<open>The fraction \<open>.999999999\<close>: nothing for zero, otherwise nine digits without trailing zeros.\<close>

definition appendNano :: "nat \<Rightarrow> string" where
  "appendNano nanosec =
     (if nanosec = 0 then [] else ''.'' @ trim_zeros (appendInt (int nanosec) 9))"

text \<open>
  Modelled from the spec: \<^verbatim>\<open>Format\<close> with the fixed pattern (package time is not among the
  sources). The fields of the instant in the order of the pattern.
\<close>

definition format_amz :: "instant \<Rightarrow> string" where
  "format_amz t =
     appendInt (year t) 4 @ ''-'' @ appendInt (int (month t)) 2 @ ''-''
       @ appendInt (int (day t)) 2 @ ''T'' @ appendInt (int (hour t)) 2 @ '':''
       @ appendInt (int (minute t)) 2 @ '':'' @ appendInt (int (second t)) 2
       @ appendNano (nsec t) @ ''Z''"

text \<open>Reading: a digit string as a number, a literal prefix, a one- or two-digit field.\<close>

definition atoi :: "string \<Rightarrow> nat" where
  "atoi ds = foldl (\<lambda>a c. 10 * a + digit_val c) 0 ds"

definition skip :: "string \<Rightarrow> string \<Rightarrow> string option" where
  "skip val prefix =
     (if take (length prefix) val = prefix then Some (drop (length prefix) val) else None)"

fun getnum :: "string \<Rightarrow> bool \<Rightarrow> (nat \<times> string) option" where
  "getnum [] fixed = None"
| "getnum [c] fixed = (if isDigit c \<and> \<not> fixed then Some (digit_val c, []) else None)"
| "getnum (c # d # rest) fixed =
     (if \<not> isDigit c then None
      else if \<not> isDigit d then (if fixed then None else Some (digit_val c, d # rest))
      else Some (digit_val c * 10 + digit_val d, rest))"

text \<open>The year field \<open>2006\<close>: exactly four characters, the first one a digit, all of them digits.\<close>

definition parse_year :: "string \<Rightarrow> (int \<times> string) option" where
  "parse_year val =
     (if length val < 4 \<or> \<not> isDigit (hd val) then None
      else if list_all isDigit (take 4 val) then Some (int (atoi (take 4 val)), drop 4 val)
      else None)"

text \<open>
  The fraction field: left out unless a point or comma and a digit follow; otherwise
  all the digits that follow are taken, and the first nine give the nanoseconds.
\<close>

fun parse_frac :: "string \<Rightarrow> nat \<times> string" where
  "parse_frac (c # d # rest) =
     (if (c = CHR ''.'' \<or> c = CHR '','') \<and> isDigit d then
        (let ds = takeWhile isDigit (d # rest); ds9 = take 9 ds in
         (atoi ds9 * 10 ^ (9 - length ds9), drop (length ds) (d # rest)))
      else (0, c # d # rest))"
| "parse_frac val = (0, val)"

text \<open>
  Modelled from the spec: \<^verbatim>\<open>Parse\<close> with the fixed pattern (package time is not among the
  sources). Each field is read in turn and checked against its range, nothing may follow
  the \<open>Z\<close>, and the day must exist in its month; \<open>None\<close> is the parse error.
\<close>

definition parse_amz :: "string \<Rightarrow> instant option" where
  "parse_amz val = do {
     (y, v) \<leftarrow> parse_year val;
     v \<leftarrow> skip v ''-'';
     (mo, v) \<leftarrow> getnum v True;
     v \<leftarrow> (if mo = 0 \<or> 12 < mo then None else skip v ''-'');
     (d, v) \<leftarrow> getnum v True;
     v \<leftarrow> skip v ''T'';
     (h, v) \<leftarrow> getnum v False;
     v \<leftarrow> (if 24 \<le> h then None else skip v '':'');
     (mi, v) \<leftarrow> getnum v True;
     v \<leftarrow> (if 60 \<le> mi then None else skip v '':'');
     (s, v) \<leftarrow> getnum v True;
     (ns, v) \<leftarrow> (if 60 \<le> s then None else Some (parse_frac v));
     v \<leftarrow> skip v ''Z'';
     if v \<noteq> [] \<or> d < 1 \<or> daysIn mo y < d then None
     else Some \<lparr>year = y, month = mo, day = d, hour = h, minute = mi, second = s, nsec = ns\<rparr>
   }"

text \<open>Exactly \<open>w\<close> digits of a number, used to reason about the padded fields.\<close>

fun fixed_digits :: "nat \<Rightarrow> nat \<Rightarrow> string" where
  "fixed_digits 0 n = []"
| "fixed_digits (Suc w) n = fixed_digits w (n div 10) @ [utod (n mod 10)]"

section \<open>An example deployment\<close>

text \<open>
  The server the example program builds (a logger and one \<^verbatim>\<open>AddTopic\<close> call with its
  callback \<^verbatim>\<open>JustPrint\<close>), and an environment for it. Callbacks are named by strings
  here and times are instants.
\<close>

definition demo_arn :: string where
  "demo_arn = ''arn:aws:sns:us-east-1:123456789012:demo''"

definition demo_server :: "string Server" where
  "demo_server =
     \<lparr>Logger = True,
      topics = Some [''/sns'' \<mapsto> \<lparr>TopicARN = demo_arn, Callback = ''JustPrint''\<rparr>]\<rparr>"

text \<open>
  Reading \<^verbatim>\<open>%d\<close> from ASCII text: leading space characters other than the newline
  (blank, tab, vertical tab, form feed, carriage return) are skipped, a sign is accepted,
  the decimal digits that follow form the token, the value must fit 64 bits, and what
  follows the token is ignored. Without a digit (also at a leading newline) the scan fails.
\<close>

definition demo_Sscanf_d :: "string \<Rightarrow> int option" where
  "demo_Sscanf_d s =
     (let s1 = dropWhile (\<lambda>c. c = CHR '' '' \<or> c = CHR 0x09 \<or> c = CHR 0x0B \<or> c = CHR 0x0C
                                \<or> c = CHR 0x0D) s;
          s2 = (if take 1 s1 = ''-'' \<or> take 1 s1 = ''+'' then drop 1 s1 else s1);
          tok = takeWhile isDigit s2;
          v = (if take 1 s1 = ''-'' then - int (atoi tok) else int (atoi tok))
      in if tok = [] then None
         else if - (2 ^ 63) \<le> v \<and> v < 2 ^ 63 then Some v else None)"

definition body_confirm :: string where
  \<open>body_confirm = ''{"SubscribeURL":"http://example.test/confirm"}''\<close>

definition body_notify :: string where
  \<open>body_notify =
     ''{"Message":"hello","MessageId":"abc","Timestamp":"2020-01-02T03:04:05.5Z"}''\<close>

definition body_numeric_subject :: string where
  \<open>body_numeric_subject =
     ''{"Message":"hello","MessageId":"abc","Timestamp":"2020-01-02T03:04:05.5Z","Subject":5}''\<close>

text \<open>
  The decoder of the examples is a table: what \<^verbatim>\<open>json.Unmarshal\<close> yields for the
  bodies the examples send. Any other body is taken as malformed, as the truncated or
  non-JSON bodies of the examples are.
\<close>

definition demo_Unmarshal :: "string \<Rightarrow> unit + jmap option" where
  "demo_Unmarshal b =
     (if b = body_confirm then
        Inr (Some [''SubscribeURL'' \<mapsto> JString ''http://example.test/confirm''])
      else if b = body_notify then
        Inr (Some [''Message'' \<mapsto> JString ''hello'', ''MessageId'' \<mapsto> JString ''abc'',
                   ''Timestamp'' \<mapsto> JString ''2020-01-02T03:04:05.5Z''])
      else if b = body_numeric_subject then
        Inr (Some [''Message'' \<mapsto> JString ''hello'', ''MessageId'' \<mapsto> JString ''abc'',
                   ''Timestamp'' \<mapsto> JString ''2020-01-02T03:04:05.5Z'',
                   ''Subject'' \<mapsto> JNumber 5])
      else if b = ''{}'' then Inr (Some Map.empty)
      else if b = ''null'' then Inr None
      else Inl ())"

definition demo_now :: instant where
  "demo_now = \<lparr>year = 2026, month = 11, day = 1, hour = 12, minute = 0, second = 0,
               nsec = 250000000\<rparr>"

text \<open>The zero \<^verbatim>\<open>time.Time\<close> is the first instant of year 1.\<close>

definition zero_instant :: instant where
  "zero_instant = \<lparr>year = 1, month = 1, day = 1, hour = 0, minute = 0, second = 0, nsec = 0\<rparr>"

definition demo_env :: "bool \<Rightarrow> instant env" where
  "demo_env reachable =
     \<lparr>Sscanf_d = demo_Sscanf_d, json_Unmarshal = demo_Unmarshal,
      maxAlloc = 281474976710656, http_Get = (\<lambda>u. reachable), time_Now_UTC = demo_now,
      time_Format = (\<lambda>t layout. if layout = amzTimeFormat then format_amz t else []),
      time_Parse = (\<lambda>layout v. if layout = amzTimeFormat then parse_amz v else None),
      time_Zero = zero_instant\<rparr>"

text \<open>
  A delivery to the example server: the delivery type, the other headers (the
  \<^verbatim>\<open>Content-Length\<close>, the raw-delivery flag and the message id when present) and the body.
\<close>

definition demo_request :: "string \<Rightarrow> (string \<times> string) list \<Rightarrow> string \<Rightarrow> Request" where
  "demo_request typ hs b =
     \<lparr>URL_Path = ''/sns'',
      Header = map_of ([(''x-amz-sns-topic-arn'', demo_arn), (''x-amz-sns-message-type'', typ)] @ hs),
      Body = b\<rparr>"

section \<open>Properties of the timestamp layout\<close>

lemma isDigit_utod: "d < 10 \<Longrightarrow> isDigit (utod d)"
  by (simp add: isDigit_def utod_def)

lemma digit_val_utod: "d < 10 \<Longrightarrow> digit_val (utod d) = d"
  by (simp add: digit_val_def utod_def)

lemma utod_0: "utod 0 = CHR ''0''"
proof -
  have "(of_char (utod 0) :: nat) = of_char (CHR ''0'')" by (simp add: utod_def)
  then show ?thesis by (simp only: of_char_eq_iff)
qed

lemma length_fixed_digits: "length (fixed_digits w n) = w"
  by (induction w arbitrary: n) auto

lemma fixed_digits_small: "n < 10 \<Longrightarrow> fixed_digits (Suc k) n = replicate k (CHR ''0'') @ [utod n]"
proof (induction k)
  case 0
  then show ?case by simp
next
  case (Suc k)
  have "fixed_digits (Suc (Suc k)) n = fixed_digits (Suc k) 0 @ [utod n]"
    using Suc.prems by simp
  also have "fixed_digits (Suc k) 0 = replicate k (CHR ''0'') @ [CHR ''0'']"
  proof (induction k)
    case 0 show ?case by (simp add: utod_0)
  next
    case (Suc j)
    have "fixed_digits (Suc (Suc j)) 0 = fixed_digits (Suc j) 0 @ [CHR ''0'']"
      by (simp add: utod_0)
    then show ?case using Suc by (simp add: replicate_append_same)
  qed
  finally show ?case by (simp add: replicate_append_same)
qed

lemma decimal_fixed:
  "0 < w \<Longrightarrow> n < 10 ^ w \<Longrightarrow> replicate (w - length (decimal n)) (CHR ''0'') @ decimal n = fixed_digits w n"
proof (induction n arbitrary: w rule: decimal.induct)
  case (1 n)
  obtain k where w: "w = Suc k" using "1.prems"(1) by (cases w) auto
  show ?case
  proof (cases "n < 10")
    case True
    then show ?thesis using fixed_digits_small [of n k] w by (simp add: decimal.simps [of n])
  next
    case False
    then have k0: "0 < k" using "1.prems"(2) w by (cases k) auto
    have lt: "n div 10 < 10 ^ k" using "1.prems"(2) w
      by (simp add: less_mult_imp_div_less mult.commute)
    have IH: "replicate (k - length (decimal (n div 10))) (CHR ''0'') @ decimal (n div 10) = fixed_digits k (n div 10)"
      using "1.IH" [OF False k0 lt] .
    have "decimal n = decimal (n div 10) @ [utod (n mod 10)]"
      using False by (simp add: decimal.simps [of n])
    then show ?thesis using IH w by simp
  qed
qed

lemma appendInt_fixed: "0 < w \<Longrightarrow> n < 10 ^ w \<Longrightarrow> appendInt (int n) w = fixed_digits w n"
  using decimal_fixed [of w n] by (simp add: appendInt_def)

lemma atoi_snoc: "atoi (ds @ [c]) = 10 * atoi ds + digit_val c"
  by (simp add: atoi_def)

lemma atoi_Nil: "atoi [] = 0"
  by (simp add: atoi_def)

lemma atoi_fixed_digits: "atoi (fixed_digits w n) = n mod 10 ^ w"
proof (induction w arbitrary: n)
  case 0
  show ?case by (simp add: atoi_Nil)
next
  case (Suc w)
  have "atoi (fixed_digits (Suc w) n) = 10 * ((n div 10) mod 10 ^ w) + n mod 10"
    by (simp add: atoi_snoc Suc digit_val_utod)
  also have "\<dots> = n mod 10 ^ Suc w"
    by (simp add: mod_mult2_eq)
  finally show ?case .
qed

lemma all_digits_fixed: "list_all isDigit (fixed_digits w n)"
  by (induction w arbitrary: n) (auto simp: isDigit_utod)


lemma getnum_fixed2:
  assumes "n < 100"
  shows "getnum (fixed_digits 2 n @ rest) fixed = Some (n, rest)"
proof -
  have d: "n div 10 < 10" "n mod 10 < 10" using assms by auto
  have "fixed_digits 2 n = [utod (n div 10), utod (n mod 10)]"
    using d by (simp add: numeral_2_eq_2)
  then show ?thesis using d by (simp add: isDigit_utod digit_val_utod)
qed

lemma parse_year_fixed4:
  assumes "n < 10000"
  shows "parse_year (fixed_digits 4 n @ rest) = Some (int n, rest)"
proof -
  have len: "length (fixed_digits 4 n) = 4" by (rule length_fixed_digits)
  then obtain c cs where cs: "fixed_digits 4 n = c # cs" by (cases "fixed_digits 4 n") auto
  have "list_all isDigit (c # cs)" using all_digits_fixed [of 4 n] cs by simp
  then have c: "isDigit c" by simp
  have tk: "take 4 (fixed_digits 4 n @ rest) = fixed_digits 4 n" using len by simp
  have dr: "drop 4 (fixed_digits 4 n @ rest) = rest" using len by simp
  have hd: "hd (fixed_digits 4 n @ rest) = c" using cs by simp
  have "atoi (fixed_digits 4 n) = n" using assms by (simp add: atoi_fixed_digits)
  then show ?thesis
    unfolding parse_year_def tk dr hd using c len all_digits_fixed [of 4 n] by simp
qed

lemma trim_zeros_decomp:
  "b = trim_zeros b @ replicate (length b - length (trim_zeros b)) (CHR ''0'')"
proof -
  let ?P = "\<lambda>c. c = CHR ''0''"
  have tw: "takeWhile ?P ys = replicate (length (takeWhile ?P ys)) (CHR ''0'')" for ys :: string
    by (induction ys) auto
  have "rev (rev b) = rev (takeWhile ?P (rev b) @ dropWhile ?P (rev b))"
    by (simp only: takeWhile_dropWhile_id)
  then have "b = rev (dropWhile ?P (rev b)) @ rev (takeWhile ?P (rev b))"
    by (simp only: rev_rev_ident rev_append)
  then have b: "b = trim_zeros b @ rev (takeWhile ?P (rev b))"
    by (simp only: trim_zeros_def)
  have "length b = length (trim_zeros b) + length (takeWhile ?P (rev b))"
    using arg_cong [OF b, of length] by simp
  then have k: "length b - length (trim_zeros b) = length (takeWhile ?P (rev b))" by simp
  have "rev (takeWhile ?P (rev b)) = replicate (length (takeWhile ?P (rev b))) (CHR ''0'')"
    using tw [of "rev b"] by (metis rev_replicate)
  then show ?thesis using b k by simp
qed

lemma digit_val_0: "digit_val (CHR ''0'') = 0"
  by (simp add: digit_val_def)

lemma atoi_zeros: "atoi (ds @ replicate k (CHR ''0'')) = atoi ds * 10 ^ k"
proof (induction k)
  case 0
  show ?case by simp
next
  case (Suc k)
  have "ds @ replicate (Suc k) (CHR ''0'') = (ds @ replicate k (CHR ''0'')) @ [CHR ''0'']"
    by (simp add: replicate_append_same)
  then have "atoi (ds @ replicate (Suc k) (CHR ''0'')) = 10 * atoi (ds @ replicate k (CHR ''0'')) + 0"
    by (simp only: atoi_snoc digit_val_0)
  then show ?case using Suc by simp
qed

lemma all_digits_trim: "list_all isDigit b \<Longrightarrow> list_all isDigit (trim_zeros b)"
  unfolding trim_zeros_def list_all_iff by (auto dest: set_dropWhileD)

lemma not_digit_Z: "\<not> isDigit (CHR ''Z'')"
  by (simp add: isDigit_def)

lemma takeWhile_digits: "list_all isDigit ds \<Longrightarrow> \<not> isDigit c \<Longrightarrow> takeWhile isDigit (ds @ c # rest) = ds"
  by (induction ds) auto

lemma parse_frac_appendNano:
  assumes "ns < 1000000000"
  shows "parse_frac (appendNano ns @ ''Z'') = (ns, ''Z'')"
proof (cases "ns = 0")
  case True
  then show ?thesis by (simp add: appendNano_def)
next
  case False
  let ?b = "fixed_digits 9 ns"
  let ?t = "trim_zeros ?b"
  have ai: "appendInt (int ns) 9 = ?b" using assms by (simp add: appendInt_fixed)
  have dec: "?b = ?t @ replicate (9 - length ?t) (CHR ''0'')"
    using trim_zeros_decomp [of ?b] by (simp add: length_fixed_digits)
  have val: "atoi ?t * 10 ^ (9 - length ?t) = ns"
  proof -
    have "atoi ?b = atoi ?t * 10 ^ (9 - length ?t)"
      using atoi_zeros [of ?t "9 - length ?t"] dec by simp
    then show ?thesis using assms by (simp add: atoi_fixed_digits)
  qed
  have ne: "?t \<noteq> []" using val False by (auto simp: atoi_Nil)
  have len: "length ?t \<le> 9"
    using arg_cong [OF dec, of length] by (simp add: length_fixed_digits)
  have dig: "list_all isDigit ?t" by (rule all_digits_trim [OF all_digits_fixed])
  obtain d ds where t: "?t = d # ds" using ne by (cases ?t) auto
  have d: "isDigit d" using dig t by simp
  have tw: "takeWhile isDigit (?t @ ''Z'') = ?t"
    using takeWhile_digits [OF dig not_digit_Z, of "[]"] by simp
  have "parse_frac (''.'' @ ?t @ ''Z'') = (atoi (take 9 ?t) * 10 ^ (9 - length (take 9 ?t)), drop (length ?t) (?t @ ''Z''))"
    using d tw t by (simp add: Let_def)
  also have "\<dots> = (ns, ''Z'')" using len val by simp
  finally show ?thesis using False ai by (simp add: appendNano_def)
qed


lemma appendInt2: "n < 100 \<Longrightarrow> appendInt (int n) 2 = fixed_digits 2 n"
  by (rule appendInt_fixed) simp_all

lemma appendInt4: "n < 10000 \<Longrightarrow> appendInt (int n) 4 = fixed_digits 4 n"
  by (rule appendInt_fixed) simp_all

text \<open>
  The digit characters, and the definitions that evaluate the layout on a concrete instant or text.
\<close>

lemma utod_digit:
  "utod 0 = CHR ''0''" "utod 1 = CHR ''1''" "utod 2 = CHR ''2''" "utod 3 = CHR ''3''"
  "utod 4 = CHR ''4''" "utod 5 = CHR ''5''" "utod 6 = CHR ''6''" "utod 7 = CHR ''7''"
  "utod 8 = CHR ''8''" "utod 9 = CHR ''9''" "utod (Suc 0) = CHR ''1''"
proof -
  have eq: "(of_char (utod d) :: nat) = of_char c \<Longrightarrow> utod d = c" for d c
    by (simp only: of_char_eq_iff)
  show "utod 0 = CHR ''0''" "utod 1 = CHR ''1''" "utod 2 = CHR ''2''" "utod 3 = CHR ''3''"
    "utod 4 = CHR ''4''" "utod 5 = CHR ''5''" "utod 6 = CHR ''6''" "utod 7 = CHR ''7''"
    "utod 8 = CHR ''8''" "utod 9 = CHR ''9''" "utod (Suc 0) = CHR ''1''"
    by (rule eq, simp add: utod_def)+
qed
lemmas amz_eval = parse_amz_def parse_year_def skip_def isDigit_def digit_val_def atoi_def
  daysIn_def isLeap_def Let_def format_amz_def appendInt_def appendNano_def trim_zeros_def
  decimal.simps utod_digit valid_instant_def

section \<open>Properties of the router\<close>

subsection \<open>Body extraction\<close>

lemma extract_no_length:
  assumes "Sscanf_d e (Header_Get (Header r) ''Content-Length'') = None"
  shows "extractJsonBody e r = ([Printf NoContentLength], Inr None)"
  using assms by (simp add: extractJsonBody_def)

lemma extract_short:
  assumes "Sscanf_d e (Header_Get (Header r) ''Content-Length'') = Some n"
    and "int (length (Body r)) < n" and "n \<le> maxAlloc e"
  shows "extractJsonBody e r = ([Printf ErrorReadingBody], Inr None)"
proof -
  have "\<not> n < 0" using assms(2) by linarith
  then show ?thesis using assms by (simp add: extractJsonBody_def)
qed

lemma extract_too_large:
  assumes "Sscanf_d e (Header_Get (Header r) ''Content-Length'') = Some n"
    and "int (length (Body r)) < n" and "maxAlloc e < n"
  shows "extractJsonBody e r = ([], Inl MakeSliceLen)"
  using assms by (simp add: extractJsonBody_def)

lemma extract_structured:
  assumes "Sscanf_d e (Header_Get (Header r) ''Content-Length'') = Some n"
    and "0 \<le> n" and "n \<le> int (length (Body r))"
    and "Header_Get (Header r) ''x-amz-sns-rawdelivery'' \<noteq> ''true''"
  shows "extractJsonBody e r =
           (case json_Unmarshal e (take (nat n) (Body r)) of
              Inl _ \<Rightarrow> ([Printf ErrorParsingJson], Inr None)
            | Inr data \<Rightarrow> ([], Inr data))"
  using assms by (simp add: extractJsonBody_def Let_def)

lemma extract_raw:
  assumes "Sscanf_d e (Header_Get (Header r) ''Content-Length'') = Some n"
    and "0 \<le> n" and "n \<le> int (length (Body r))"
    and "Header_Get (Header r) ''x-amz-sns-rawdelivery'' = ''true''"
  shows "extractJsonBody e r =
           ([], Inr (Some [''Subject'' \<mapsto> JString [],
                           ''Message'' \<mapsto> JString (take (nat n) (Body r)),
                           ''MessageId'' \<mapsto> JString (Header_Get (Header r) ''x-amz-sns-message-id''),
                           ''Timestamp'' \<mapsto> JString (time_Format e (time_Now_UTC e) amzTimeFormat)]))"
  using assms by (simp add: extractJsonBody_def Let_def)

lemma extract_negative:
  assumes "Sscanf_d e (Header_Get (Header r) ''Content-Length'') = Some n" and "n < 0"
  shows "extractJsonBody e r = ([], Inl MakeSliceLen)"
  using assms by (simp add: extractJsonBody_def)

subsection \<open>The two flows\<close>

lemma processMessage_no_data:
  "extractJsonBody e r = (out, Inr None) \<Longrightarrow> processMessage e s td r = (out, Inr ())"
  by (simp add: processMessage_def)

lemma confirmSub_no_data:
  "extractJsonBody e r = (out, Inr None) \<Longrightarrow> confirmSub e s td r = (out, Inr ())"
  by (simp add: confirmSub_def)

lemma processMessage_panic:
  "extractJsonBody e r = (out, Inl p) \<Longrightarrow> processMessage e s td r = (out, Inl p)"
  by (simp add: processMessage_def)

lemma confirmSub_panic:
  "extractJsonBody e r = (out, Inl p) \<Longrightarrow> confirmSub e s td r = (out, Inl p)"
  by (simp add: confirmSub_def)

lemma assert_string_ok: "data k = Some (JString v) \<Longrightarrow> assert_string data k = Inr v"
  by (simp add: assert_string_def map_index_def)

lemma assert_string_fails:
  assumes "\<nexists>v. data k = Some (JString v)"
  shows "assert_string data k = Inl (InterfaceConversion k)"
  using assms by (auto simp: assert_string_def map_index_def split: option.splits jvalue.splits)

lemma confirmSub_data:
  assumes "extractJsonBody e r = (out, Inr (Some data))"
    and "data ''SubscribeURL'' = Some (JString u)"
  shows "confirmSub e s td r =
           (if http_Get e u
            then (out @ [Get u, BodyClose]
                    @ (if Logger s then [Logged (LogConfirmed (URL_Path r) (TopicARN td))] else [])
                    @ [Go (Callback td) None], Inr ())
            else (out @ [Get u, Printf ErrorConfirming], Inr ()))"
  using assms by (simp add: confirmSub_def assert_string_ok)

lemma confirmSub_missing_field:
  assumes "extractJsonBody e r = (out, Inr (Some data))"
    and "\<nexists>u. data ''SubscribeURL'' = Some (JString u)"
  shows "confirmSub e s td r = (out, Inl (InterfaceConversion ''SubscribeURL''))"
  using assms(1) assert_string_fails [of data "''SubscribeURL''"] assms(2)
  by (simp add: confirmSub_def)

lemma processMessage_data:
  assumes "extractJsonBody e r = (out, Inr (Some data))"
    and "data ''Timestamp'' = Some (JString ts)"
    and "data ''Message'' = Some (JString m)"
    and "data ''MessageId'' = Some (JString i)"
    and "data ''Subject'' = None \<or> data ''Subject'' = Some JNull \<or> data ''Subject'' = Some (JString sub)"
  shows "processMessage e s td r =
           (out @ (if Logger s
                   then [Logged (LogGotMessage (URL_Path r) (TopicARN td)), Logged (LogMessageId i)]
                   else [])
                @ [Go (Callback td)
                     (Some \<lparr>Subject = (if data ''Subject'' = Some (JString sub) then sub else []),
                            Message = m, MessageId = i,
                            Timestamp = (case time_Parse e amzTimeFormat ts of
                                           None \<Rightarrow> time_Zero e | Some t \<Rightarrow> t)\<rparr>)],
            Inr ())"
proof -
  have a: "assert_string data ''Timestamp'' = Inr ts" "assert_string data ''Message'' = Inr m"
    "assert_string data ''MessageId'' = Inr i"
    using assms(2-4) by (simp_all add: assert_string_def map_index_def)
  consider (absent) "map_index data ''Subject'' = JNull" "data ''Subject'' \<noteq> Some (JString sub)"
    | (present) "map_index data ''Subject'' \<noteq> JNull" "data ''Subject'' = Some (JString sub)"
      "assert_string data ''Subject'' = Inr sub"
    using assms(5) by (auto simp: map_index_def assert_string_def)
  then show ?thesis
  proof cases
    case absent
    then show ?thesis by (simp add: processMessage_def assms(1) a Let_def)
  next
    case present
    then show ?thesis by (simp add: processMessage_def assms(1) a Let_def)
  qed
qed

lemma processMessage_missing_field:
  assumes "extractJsonBody e r = (out, Inr (Some data))"
    and "(\<nexists>v. data ''Timestamp'' = Some (JString v)) \<or> (\<nexists>v. data ''Message'' = Some (JString v))
         \<or> (\<nexists>v. data ''MessageId'' = Some (JString v))"
  shows "\<exists>k. processMessage e s td r = (out, Inl (InterfaceConversion k))"
proof -
  have t: "assert_string data ''Timestamp'' = Inl (InterfaceConversion ''Timestamp'') \<or> (\<exists>v. data ''Timestamp'' = Some (JString v))"
    using assert_string_fails [of data "''Timestamp''"] by blast
  have m: "assert_string data ''Message'' = Inl (InterfaceConversion ''Message'') \<or> (\<exists>v. data ''Message'' = Some (JString v))"
    using assert_string_fails [of data "''Message''"] by blast
  have i: "assert_string data ''MessageId'' = Inl (InterfaceConversion ''MessageId'') \<or> (\<exists>v. data ''MessageId'' = Some (JString v))"
    using assert_string_fails [of data "''MessageId''"] by blast
  show ?thesis
    using assms(2) t m i unfolding processMessage_def assms(1)
    by (auto simp: assert_string_ok Let_def)
qed

subsection \<open>Dispatch\<close>

lemma ServeHTTP_Notification:
  assumes "topics_at s (URL_Path r) = Some td"
    and "TopicARN td = Header_Get (Header r) ''x-amz-sns-topic-arn''"
    and "Header_Get (Header r) ''x-amz-sns-message-type'' = ''Notification''"
  shows "ServeHTTP e s r =
           (case processMessage e s td r of
              (out, Inl p) \<Rightarrow> (out, Inl p)
            | (out, Inr _) \<Rightarrow> (out, Inr (simpleResponse 200 ''ok'')))"
  using assms by (simp add: ServeHTTP_def)

lemma ServeHTTP_Confirmation:
  assumes "topics_at s (URL_Path r) = Some td"
    and "TopicARN td = Header_Get (Header r) ''x-amz-sns-topic-arn''"
    and "Header_Get (Header r) ''x-amz-sns-message-type'' = ''SubscriptionConfirmation''"
  shows "ServeHTTP e s r =
           (case confirmSub e s td r of
              (out, Inl p) \<Rightarrow> (out, Inl p)
            | (out, Inr _) \<Rightarrow> (out, Inr (simpleResponse 200 ''ok'')))"
  using assms by (simp add: ServeHTTP_def)

lemma invocations_append: "invocations (xs @ ys) = invocations xs @ invocations ys"
  by (induction xs rule: invocations.induct) auto

lemma outbound_append: "outbound (xs @ ys) = outbound xs @ outbound ys"
  by (induction xs rule: outbound.induct) auto

text \<open>
  When body extraction reports no data: the length cannot be scanned, the body is shorter
  than a length within the allocation limit, or the structured body does not decode.
\<close>

lemma extract_fails:
  assumes "Sscanf_d e (Header_Get (Header r) ''Content-Length'') = None
         \<or> (\<exists>n. Sscanf_d e (Header_Get (Header r) ''Content-Length'') = Some n
                 \<and> int (length (Body r)) < n \<and> n \<le> maxAlloc e)
         \<or> (\<exists>n. Sscanf_d e (Header_Get (Header r) ''Content-Length'') = Some n
                 \<and> 0 \<le> n \<and> n \<le> int (length (Body r))
                 \<and> Header_Get (Header r) ''x-amz-sns-rawdelivery'' \<noteq> ''true''
                 \<and> json_Unmarshal e (take (nat n) (Body r)) = Inl ())"
  shows "\<exists>d. extractJsonBody e r = ([Printf d], Inr None)"
  using assms by (elim disjE exE conjE) (simp_all add: extract_no_length extract_short extract_structured)

text \<open>
  Extraction yields the nil map exactly when the length cannot be scanned, the body is
  shorter than a length within the allocation limit, or (in structured mode) the decoder
  fails or decodes \<^verbatim>\<open>null\<close>.
\<close>

lemma extract_no_data_iff:
  "snd (extractJsonBody e r :: ('cb, 't) event list \<times> (panic + jmap option)) = Inr None \<longleftrightarrow>
     (case Sscanf_d e (Header_Get (Header r) ''Content-Length'') of
        None \<Rightarrow> True
      | Some n \<Rightarrow>
          (int (length (Body r)) < n \<and> n \<le> maxAlloc e)
          \<or> (0 \<le> n \<and> n \<le> int (length (Body r))
               \<and> Header_Get (Header r) ''x-amz-sns-rawdelivery'' \<noteq> ''true''
               \<and> json_Unmarshal e (take (nat n) (Body r)) \<in> {Inl (), Inr None}))"
  by (auto simp: extractJsonBody_def Let_def split: option.splits sum.splits)

text \<open>
  A Notification whose extraction fails in one of these ways is answered with 200 and
  invokes no callback.
\<close>

lemma extraction_failure_acknowledged:
  assumes reg: "topics_at s (URL_Path r) = Some td"
    and arn: "TopicARN td = Header_Get (Header r) ''x-amz-sns-topic-arn''"
    and kind: "Header_Get (Header r) ''x-amz-sns-message-type'' = ''Notification''"
    and fail:
      "Sscanf_d e (Header_Get (Header r) ''Content-Length'') = None
       \<or> (\<exists>n. Sscanf_d e (Header_Get (Header r) ''Content-Length'') = Some n
               \<and> int (length (Body r)) < n \<and> n \<le> maxAlloc e)
       \<or> (\<exists>n. Sscanf_d e (Header_Get (Header r) ''Content-Length'') = Some n
               \<and> 0 \<le> n \<and> n \<le> int (length (Body r))
               \<and> Header_Get (Header r) ''x-amz-sns-rawdelivery'' \<noteq> ''true''
               \<and> json_Unmarshal e (take (nat n) (Body r)) = Inl ())"
  shows "snd (ServeHTTP e s r) =
           Inr \<lparr>ContentType = ''text/plain; charset=utf-8'', StatusCode = 200,
                Written = ''ok'' @ [CHR 0x0A]\<rparr>
         \<and> invocations (fst (ServeHTTP e s r)) = []"
proof -
  obtain d :: diag where "extractJsonBody e r = ([Printf d] :: ('a, 'b) event list, Inr None)"
    using extract_fails [OF fail] by blast
  then have "processMessage e s td r = ([Printf d], Inr ())"
    by (rule processMessage_no_data)
  then have "ServeHTTP e s r = ([Printf d], Inr (simpleResponse 200 ''ok''))"
    using ServeHTTP_Notification [OF reg arn kind, of e] by simp
  then show ?thesis by (simp add: simpleResponse_def)
qed

text \<open>
  In raw-delivery mode too, extraction returns the nil map when the length cannot be
  scanned or the body is shorter than a length within the allocation limit; neither flow,
  and so no request to any server, then invokes a callback.
\<close>

lemma raw_extraction_failure_no_data:
  assumes raw: "Header_Get (Header r) ''x-amz-sns-rawdelivery'' = ''true''"
    and fail:
      "Sscanf_d e (Header_Get (Header r) ''Content-Length'') = None
       \<or> (\<exists>n. Sscanf_d e (Header_Get (Header r) ''Content-Length'') = Some n
               \<and> int (length (Body r)) < n \<and> n \<le> maxAlloc e)"
  shows "snd (extractJsonBody e r :: ('cb, 't) event list \<times> (panic + jmap option)) = Inr None
         \<and> invocations (fst (processMessage e s td r)) = []
         \<and> invocations (fst (confirmSub e s td r)) = []
         \<and> invocations (fst (ServeHTTP e s r)) = []"
proof -
  have ex: "\<exists>d. extractJsonBody e r = ([Printf d] :: ('c, 't) event list, Inr None)"
    using fail by (elim disjE exE conjE) (simp_all add: extract_no_length extract_short)
  obtain d1 :: diag where x1: "extractJsonBody e r = ([Printf d1] :: ('cb, 't) event list, Inr None)"
    using ex by blast
  obtain d :: diag where x: "extractJsonBody e r = ([Printf d] :: ('a, 't) event list, Inr None)"
    using ex by blast
  have p: "processMessage e s t r = ([Printf d], Inr ())" for t
    using x by (rule processMessage_no_data)
  have c: "confirmSub e s t r = ([Printf d], Inr ())" for t
    using x by (rule confirmSub_no_data)
  have "invocations (fst (ServeHTTP e s r)) = []"
    by (simp add: ServeHTTP_def p c Let_def split: option.splits)
  then show ?thesis using x1 p c by simp
qed

text \<open>
  A decoded map without a required string field: the unchecked type assertion panics,
  so the handler ends before any effect and before \<^verbatim>\<open>simpleResponse\<close> is called.
\<close>

lemma ServeHTTP_confirmation_missing_field:
  assumes reg: "topics_at s (URL_Path r) = Some td"
    and arn: "TopicARN td = Header_Get (Header r) ''x-amz-sns-topic-arn''"
    and kind: "Header_Get (Header r) ''x-amz-sns-message-type'' = ''SubscriptionConfirmation''"
    and x: "extractJsonBody e r = (out, Inr (Some data))"
    and missing: "\<nexists>u. data ''SubscribeURL'' = Some (JString u)"
  shows "ServeHTTP e s r = (out, Inl (InterfaceConversion ''SubscribeURL''))"
  using ServeHTTP_Confirmation [OF reg arn kind, of e] confirmSub_missing_field [OF x missing, of s td]
  by simp

lemma ServeHTTP_notification_missing_field:
  assumes reg: "topics_at s (URL_Path r) = Some td"
    and arn: "TopicARN td = Header_Get (Header r) ''x-amz-sns-topic-arn''"
    and kind: "Header_Get (Header r) ''x-amz-sns-message-type'' = ''Notification''"
    and x: "extractJsonBody e r = (out, Inr (Some data))"
    and missing: "(\<nexists>v. data ''Timestamp'' = Some (JString v))
                  \<or> (\<nexists>v. data ''Message'' = Some (JString v))
                  \<or> (\<nexists>v. data ''MessageId'' = Some (JString v))"
  shows "\<exists>k. ServeHTTP e s r = (out, Inl (InterfaceConversion k))"
proof -
  obtain k where "processMessage e s td r = (out, Inl (InterfaceConversion k))"
    using processMessage_missing_field [OF x missing, of s td] by blast
  then show ?thesis using ServeHTTP_Notification [OF reg arn kind, of e] by simp
qed

lemma ServeHTTP_not_implemented:
  assumes "topics_at s (URL_Path r) = Some td"
    and "TopicARN td = Header_Get (Header r) ''x-amz-sns-topic-arn''"
    and "Header_Get (Header r) ''x-amz-sns-message-type'' \<noteq> ''SubscriptionConfirmation''"
    and "Header_Get (Header r) ''x-amz-sns-message-type'' \<noteq> ''Notification''"
  shows "ServeHTTP e s r = ([], Inr (simpleResponse 501 ''not implemented''))"
  using assms by (simp add: ServeHTTP_def)

subsection \<open>Registration\<close>

text \<open>
  For a non-empty path \<^verbatim>\<open>AddTopic\<close> stores the entry under the path with a leading
  slash, leaves every other entry alone, and a second registration of the same path
  replaces the first without an error.
\<close>

lemma AddTopic_nonempty:
  assumes "endpoint \<noteq> []"
  shows "\<exists>s'. AddTopic s topicARN endpoint callback =
            Inr (s', if Logger s
                     then [LogAdding (if hd endpoint = CHR ''/'' then endpoint else ''/'' @ endpoint) topicARN]
                     else [])
          \<and> Logger s' = Logger s
          \<and> topics_at s' (if hd endpoint = CHR ''/'' then endpoint else ''/'' @ endpoint)
              = Some \<lparr>TopicARN = topicARN, Callback = callback\<rparr>
          \<and> (\<forall>p. p \<noteq> (if hd endpoint = CHR ''/'' then endpoint else ''/'' @ endpoint)
                \<longrightarrow> topics_at s' p = topics_at s p)"
proof -
  obtain c cs where e: "endpoint = c # cs" using assms by (cases endpoint) auto
  show ?thesis
    unfolding e by (cases "topics s") (auto simp: AddTopic_def topics_at_def Let_def)
qed

lemma AddTopic_twice:
  assumes "AddTopic s arn1 endpoint cb1 = Inr (s1, l1)"
  shows "\<exists>s2 l2. AddTopic s1 arn2 endpoint cb2 = Inr (s2, l2)
           \<and> topics_at s2 (if hd endpoint = CHR ''/'' then endpoint else ''/'' @ endpoint)
               = Some \<lparr>TopicARN = arn2, Callback = cb2\<rparr>"
proof -
  have "endpoint \<noteq> []" using assms by (auto simp: AddTopic_def)
  then show ?thesis using AddTopic_nonempty [of endpoint s1 arn2 cb2] by blast
qed

lemma demo_server_built:
  "AddTopic \<lparr>Logger = True, topics = None\<rparr> demo_arn ''sns'' ''JustPrint''
     = Inr (demo_server, [LogAdding ''/sns'' demo_arn])"
  by (simp add: AddTopic_def demo_server_def Let_def)

text \<open>
  The definitions that evaluate the example deployment.
\<close>

lemmas demo_eval =
  demo_server_def demo_request_def demo_env_def demo_arn_def demo_Sscanf_d_def demo_Unmarshal_def
  body_confirm_def body_notify_def body_numeric_subject_def topics_at_def Header_Get_def Let_def isDigit_def atoi_def
  digit_val_def

section \<open>The claims\<close>

text \<open>
  C1. The claim is that a delivery whose body is extracted, but whose map lacks a required
  string field, is dropped silently and still answered with 200. The code panics instead
  (\<open>ServeHTTP_confirmation_missing_field\<close>, \<open>ServeHTTP_notification_missing_field\<close>).
  At the example server, a Notification and a SubscriptionConfirmation whose body is the
  empty JSON object both end in the panic of the type assertion: no callback is spawned
  and no response is written.
\<close>

theorem missing_field_panics:
  "ServeHTTP (demo_env True) demo_server
     (demo_request ''Notification'' [(''Content-Length'', ''2'')] ''{}'')
     = ([], Inl (InterfaceConversion ''Timestamp''))
   \<and> ServeHTTP (demo_env True) demo_server
     (demo_request ''SubscriptionConfirmation'' [(''Content-Length'', ''2'')] ''{}'')
     = ([], Inl (InterfaceConversion ''SubscribeURL''))"
  by (simp add: ServeHTTP_def processMessage_def confirmSub_def extractJsonBody_def
      assert_string_def map_index_def demo_eval)

text \<open>
  C2, as amended. For a SubscriptionConfirmation request to a registered path with the
  matching channel id, whose raw-delivery header is not \<^verbatim>\<open>true\<close>, whose
  \<^verbatim>\<open>Content-Length\<close> header scans as an integer \<open>n\<close> between 0 and the length of the body,
  and whose first \<open>n\<close> body bytes decode to a JSON object with a string
  \<^verbatim>\<open>SubscribeURL\<close>: exactly one outbound GET is issued, to that URL; the response is 200
  with body \<^verbatim>\<open>ok\<close> whether or not the GET fails; and the callback is invoked exactly
  once, with the nil message, when the GET succeeds and not at all when it fails.
\<close>

theorem confirmation_get_then_callback:
  assumes reg: "topics_at s (URL_Path r) = Some td"
    and arn: "TopicARN td = Header_Get (Header r) ''x-amz-sns-topic-arn''"
    and kind: "Header_Get (Header r) ''x-amz-sns-message-type'' = ''SubscriptionConfirmation''"
    and len: "Sscanf_d e (Header_Get (Header r) ''Content-Length'') = Some n"
      "0 \<le> n" "n \<le> int (length (Body r))"
    and structured: "Header_Get (Header r) ''x-amz-sns-rawdelivery'' \<noteq> ''true''"
    and json: "json_Unmarshal e (take (nat n) (Body r)) = Inr (Some data)"
    and url: "data ''SubscribeURL'' = Some (JString u)"
  shows "outbound (fst (ServeHTTP e s r)) = [u]
         \<and> snd (ServeHTTP e s r) =
             Inr \<lparr>ContentType = ''text/plain; charset=utf-8'', StatusCode = 200,
                  Written = ''ok'' @ [CHR 0x0A]\<rparr>
         \<and> invocations (fst (ServeHTTP e s r)) =
             (if http_Get e u then [(Callback td, None)] else [])"
proof -
  have x: "extractJsonBody e r = ([] :: ('a, 'b) event list, Inr (Some data))"
    using extract_structured [OF len structured] json by simp
  show ?thesis
    unfolding ServeHTTP_Confirmation [OF reg arn kind] confirmSub_data [OF x url]
    by (simp add: simpleResponse_def invocations_append outbound_append)
qed

theorem confirmation_get_then_callback_witness:
  "(let r = demo_request ''SubscriptionConfirmation'' [(''Content-Length'', ''46'')] body_confirm in
      outbound (fst (ServeHTTP (demo_env True) demo_server r)) = [''http://example.test/confirm'']
      \<and> snd (ServeHTTP (demo_env True) demo_server r) =
          Inr \<lparr>ContentType = ''text/plain; charset=utf-8'', StatusCode = 200,
               Written = ''ok'' @ [CHR 0x0A]\<rparr>
      \<and> invocations (fst (ServeHTTP (demo_env True) demo_server r)) = [(''JustPrint'', None)])"
proof -
  let ?td = "\<lparr>TopicARN = demo_arn, Callback = ''JustPrint''\<rparr>"
  let ?r = "demo_request ''SubscriptionConfirmation'' [(''Content-Length'', ''46'')] body_confirm"
  let ?data = "[''SubscribeURL'' \<mapsto> JString ''http://example.test/confirm'']"
  have reg: "topics_at demo_server (URL_Path ?r) = Some ?td"
    and arn: "TopicARN ?td = Header_Get (Header ?r) ''x-amz-sns-topic-arn''"
    and kind: "Header_Get (Header ?r) ''x-amz-sns-message-type'' = ''SubscriptionConfirmation''"
    and len: "Sscanf_d (demo_env True) (Header_Get (Header ?r) ''Content-Length'') = Some 46"
      "(0::int) \<le> 46" "46 \<le> int (length (Body ?r))"
    and structured: "Header_Get (Header ?r) ''x-amz-sns-rawdelivery'' \<noteq> ''true''"
    and json: "json_Unmarshal (demo_env True) (take (nat 46) (Body ?r)) = Inr (Some ?data)"
    by (simp_all add: demo_eval)
  have url: "?data ''SubscribeURL'' = Some (JString ''http://example.test/confirm'')"
    by simp
  show ?thesis
    using confirmation_get_then_callback [OF reg arn kind len structured json url]
    unfolding Let_def by (simp add: demo_env_def)
qed

text \<open>
  C2 as stated fails, at three requests to the registered path with the matching channel
  id and the JSON body with a \<^verbatim>\<open>SubscribeURL\<close>: when the GET fails, the GET was issued but
  no callback is invoked; without a \<^verbatim>\<open>Content-Length\<close> header no GET is issued and no
  callback is invoked; and with the raw-delivery header the body is not decoded, so the
  type assertion on \<^verbatim>\<open>SubscribeURL\<close> panics.
\<close>

theorem confirmation_get_fails_counterexample:
  "outbound (fst (ServeHTTP (demo_env False) demo_server
      (demo_request ''SubscriptionConfirmation'' [(''Content-Length'', ''46'')] body_confirm)))
     = [''http://example.test/confirm'']
   \<and> invocations (fst (ServeHTTP (demo_env False) demo_server
      (demo_request ''SubscriptionConfirmation'' [(''Content-Length'', ''46'')] body_confirm)))
     = []
   \<and> outbound (fst (ServeHTTP (demo_env True) demo_server
      (demo_request ''SubscriptionConfirmation'' [] body_confirm)))
     = []
   \<and> invocations (fst (ServeHTTP (demo_env True) demo_server
      (demo_request ''SubscriptionConfirmation'' [] body_confirm)))
     = []
   \<and> ServeHTTP (demo_env True) demo_server
      (demo_request ''SubscriptionConfirmation''
         [(''Content-Length'', ''46''), (''x-amz-sns-rawdelivery'', ''true'')] body_confirm)
     = ([], Inl (InterfaceConversion ''SubscribeURL''))"
  by (simp add: ServeHTTP_def confirmSub_def extractJsonBody_def assert_string_def map_index_def
      demo_eval)

text \<open>
  C3, as amended. For a registered path and a request with the matching channel header
  and type Notification, whose raw-delivery header is not \<^verbatim>\<open>true\<close>, whose
  \<^verbatim>\<open>Content-Length\<close> header scans as an integer \<open>n\<close> between 0 and the length of the body,
  and whose first \<open>n\<close> body bytes decode to a JSON object with string fields
  \<^verbatim>\<open>Message\<close>, \<^verbatim>\<open>MessageId\<close> and \<^verbatim>\<open>Timestamp\<close> and a \<^verbatim>\<open>Subject\<close> that is a string, null
  or absent: the response is 200 with body \<^verbatim>\<open>ok\<close>, and the callback
  of the registration is invoked exactly once, with a message whose \<^verbatim>\<open>Subject\<close>,
  \<^verbatim>\<open>Message\<close> and \<^verbatim>\<open>MessageId\<close> are the fields of the JSON object (the subject empty when
  absent or null) and whose \<^verbatim>\<open>Timestamp\<close> is the parsed field, or the zero time when it
  does not parse.
\<close>

theorem notification_delivers_message:
  assumes reg: "topics_at s (URL_Path r) = Some td"
    and arn: "TopicARN td = Header_Get (Header r) ''x-amz-sns-topic-arn''"
    and kind: "Header_Get (Header r) ''x-amz-sns-message-type'' = ''Notification''"
    and len: "Sscanf_d e (Header_Get (Header r) ''Content-Length'') = Some n"
      "0 \<le> n" "n \<le> int (length (Body r))"
    and structured: "Header_Get (Header r) ''x-amz-sns-rawdelivery'' \<noteq> ''true''"
    and json: "json_Unmarshal e (take (nat n) (Body r)) = Inr (Some data)"
    and fields: "data ''Message'' = Some (JString m)" "data ''MessageId'' = Some (JString i)"
      "data ''Timestamp'' = Some (JString ts)"
    and subject: "data ''Subject'' = None \<or> data ''Subject'' = Some JNull
                  \<or> data ''Subject'' = Some (JString sub)"
  shows "snd (ServeHTTP e s r) =
           Inr \<lparr>ContentType = ''text/plain; charset=utf-8'', StatusCode = 200,
                Written = ''ok'' @ [CHR 0x0A]\<rparr>
         \<and> invocations (fst (ServeHTTP e s r)) =
             [(Callback td,
               Some \<lparr>Subject = (if data ''Subject'' = Some (JString sub) then sub else []),
                     Message = m, MessageId = i,
                     Timestamp = (case time_Parse e amzTimeFormat ts of
                                    None \<Rightarrow> time_Zero e | Some t \<Rightarrow> t)\<rparr>)]"
proof -
  have x: "extractJsonBody e r = ([] :: ('a, 'b) event list, Inr (Some data))"
    using extract_structured [OF len structured] json by simp
  show ?thesis
    unfolding ServeHTTP_Notification [OF reg arn kind]
      processMessage_data [OF x fields(3) fields(1) fields(2) subject]
    by (simp add: simpleResponse_def invocations_append)
qed

theorem notification_delivers_message_witness:
  "(let r = demo_request ''Notification'' [(''Content-Length'', ''74'')] body_notify in
      snd (ServeHTTP (demo_env True) demo_server r) =
        Inr \<lparr>ContentType = ''text/plain; charset=utf-8'', StatusCode = 200,
             Written = ''ok'' @ [CHR 0x0A]\<rparr>
      \<and> invocations (fst (ServeHTTP (demo_env True) demo_server r)) =
          [(''JustPrint'',
            Some \<lparr>Subject = [], Message = ''hello'', MessageId = ''abc'',
                  Timestamp = \<lparr>year = 2020, month = 1, day = 2, hour = 3, minute = 4,
                                second = 5, nsec = 500000000\<rparr>\<rparr>)])"
proof -
  let ?td = "\<lparr>TopicARN = demo_arn, Callback = ''JustPrint''\<rparr>"
  let ?r = "demo_request ''Notification'' [(''Content-Length'', ''74'')] body_notify"
  let ?data = "[''Message'' \<mapsto> JString ''hello'', ''MessageId'' \<mapsto> JString ''abc'',
                ''Timestamp'' \<mapsto> JString ''2020-01-02T03:04:05.5Z'']"
  have reg: "topics_at demo_server (URL_Path ?r) = Some ?td"
    and arn: "TopicARN ?td = Header_Get (Header ?r) ''x-amz-sns-topic-arn''"
    and kind: "Header_Get (Header ?r) ''x-amz-sns-message-type'' = ''Notification''"
    and len: "Sscanf_d (demo_env True) (Header_Get (Header ?r) ''Content-Length'') = Some 74"
      "(0::int) \<le> 74" "74 \<le> int (length (Body ?r))"
    and structured: "Header_Get (Header ?r) ''x-amz-sns-rawdelivery'' \<noteq> ''true''"
    and json: "json_Unmarshal (demo_env True) (take (nat 74) (Body ?r)) = Inr (Some ?data)"
    by (simp_all add: demo_eval)
  have fields: "?data ''Message'' = Some (JString ''hello'')" "?data ''MessageId'' = Some (JString ''abc'')"
    "?data ''Timestamp'' = Some (JString ''2020-01-02T03:04:05.5Z'')"
    and subject: "?data ''Subject'' = None \<or> ?data ''Subject'' = Some JNull
                  \<or> ?data ''Subject'' = Some (JString [])"
    by simp_all
  have tm: "parse_amz ''2020-01-02T03:04:05.5Z'' =
              Some \<lparr>year = 2020, month = 1, day = 2, hour = 3, minute = 4, second = 5,
                    nsec = 500000000\<rparr>"
    by (simp add: amz_eval)
  show ?thesis
    using notification_delivers_message [OF reg arn kind len structured json fields subject]
    unfolding Let_def by (simp add: demo_env_def tm)
qed

text \<open>
  C3 as stated fails, at three requests to the registered path with the matching channel
  id, type Notification and a well-formed JSON body with the three string fields: without
  a \<^verbatim>\<open>Content-Length\<close> header the response is 200 but no callback is invoked; with the
  raw-delivery header the one message carries the whole body text and the message-id
  header, not the JSON fields; and with a numeric \<^verbatim>\<open>Subject\<close> the type assertion panics.
\<close>

theorem notification_delivery_counterexample:
  "ServeHTTP (demo_env True) demo_server (demo_request ''Notification'' [] body_notify)
     = ([Printf NoContentLength],
        Inr \<lparr>ContentType = ''text/plain; charset=utf-8'', StatusCode = 200,
             Written = ''ok'' @ [CHR 0x0A]\<rparr>)
   \<and> invocations (fst (ServeHTTP (demo_env True) demo_server
        (demo_request ''Notification''
           [(''Content-Length'', ''74''), (''x-amz-sns-rawdelivery'', ''true''),
            (''x-amz-sns-message-id'', ''id-7'')] body_notify)))
     = [(''JustPrint'',
         Some \<lparr>Subject = [], Message = body_notify, MessageId = ''id-7'',
               Timestamp = demo_now\<rparr>)]
   \<and> ServeHTTP (demo_env True) demo_server
        (demo_request ''Notification'' [(''Content-Length'', ''86'')] body_numeric_subject)
     = ([], Inl (InterfaceConversion ''Subject''))"
proof -
  have now: "format_amz demo_now = ''2026-11-01T12:00:00.25Z''"
    by (simp add: amz_eval demo_now_def)
  have parsed: "parse_amz ''2026-11-01T12:00:00.25Z'' = Some demo_now"
    by (simp add: amz_eval demo_now_def)
  have a: "ServeHTTP (demo_env True) demo_server (demo_request ''Notification'' [] body_notify)
     = ([Printf NoContentLength],
        Inr \<lparr>ContentType = ''text/plain; charset=utf-8'', StatusCode = 200,
             Written = ''ok'' @ [CHR 0x0A]\<rparr>)"
    by (simp add: ServeHTTP_def processMessage_def extractJsonBody_def simpleResponse_def demo_eval)
  have b: "invocations (fst (ServeHTTP (demo_env True) demo_server
        (demo_request ''Notification''
           [(''Content-Length'', ''74''), (''x-amz-sns-rawdelivery'', ''true''),
            (''x-amz-sns-message-id'', ''id-7'')] body_notify)))
     = [(''JustPrint'',
         Some \<lparr>Subject = [], Message = body_notify, MessageId = ''id-7'',
               Timestamp = demo_now\<rparr>)]"
    by (simp add: ServeHTTP_def processMessage_def extractJsonBody_def assert_string_def
        map_index_def demo_eval now parsed)
  have c: "ServeHTTP (demo_env True) demo_server
        (demo_request ''Notification'' [(''Content-Length'', ''86'')] body_numeric_subject)
     = ([], Inl (InterfaceConversion ''Subject''))"
    by (simp add: ServeHTTP_def processMessage_def extractJsonBody_def assert_string_def
        map_index_def demo_eval)
  show ?thesis using a b c by simp
qed

text \<open>
  C4. The claim is that a Notification whose body extraction fails (the length missing or
  not scannable, the body shorter than the length, or the body not valid JSON) is still
  answered with 200 and invokes no callback. That holds while the length is within the
  allocation limit (\<open>extraction_failure_acknowledged\<close>). The code allocates the buffer
  before it reads: for a \<^verbatim>\<open>Content-Length\<close> above the limit and a shorter body,
  \<^verbatim>\<open>make\<close> panics, no callback is spawned and no response is written.
\<close>

theorem notification_huge_length_panics:
  "ServeHTTP (demo_env True) demo_server
     (demo_request ''Notification'' [(''Content-Length'', ''9223372036854775807'')] body_notify)
     = ([], Inl MakeSliceLen)"
  by (simp add: ServeHTTP_def processMessage_def extractJsonBody_def demo_eval)

text \<open>
  C5, as amended. For a request whose raw-delivery header is \<^verbatim>\<open>true\<close> and whose
  \<^verbatim>\<open>Content-Length\<close> header scans as an integer \<open>n\<close> between 0 and the length of the body:
  extraction yields a map with exactly the keys \<^verbatim>\<open>Subject\<close> (the empty string),
  \<^verbatim>\<open>Message\<close> (the first \<open>n\<close> bytes of the body: the whole body when \<open>n\<close> is its length),
  \<^verbatim>\<open>MessageId\<close> (the message-id header) and \<^verbatim>\<open>Timestamp\<close> (the current UTC time in the
  fixed pattern); the JSON decoder plays no part, since any other decoder gives the same
  result.
\<close>

theorem raw_delivery_synthesizes_fields:
  assumes raw: "Header_Get (Header r) ''x-amz-sns-rawdelivery'' = ''true''"
    and len: "Sscanf_d e (Header_Get (Header r) ''Content-Length'') = Some n"
      "0 \<le> n" "n \<le> int (length (Body r))"
  shows "\<exists>data. extractJsonBody e r = ([] :: ('cb, 't) event list, Inr (Some data))
           \<and> dom data = {''Subject'', ''Message'', ''MessageId'', ''Timestamp''}
           \<and> data ''Subject'' = Some (JString [])
           \<and> data ''Message'' = Some (JString (take (nat n) (Body r)))
           \<and> data ''MessageId'' = Some (JString (Header_Get (Header r) ''x-amz-sns-message-id''))
           \<and> data ''Timestamp'' = Some (JString (time_Format e (time_Now_UTC e) amzTimeFormat))
           \<and> extractJsonBody (e\<lparr>json_Unmarshal := decode\<rparr>) r
               = ([] :: ('cb, 't) event list, Inr (Some data))"
proof -
  have len': "Sscanf_d (e\<lparr>json_Unmarshal := decode\<rparr>) (Header_Get (Header r) ''Content-Length'') = Some n"
    using len(1) by simp
  show ?thesis
    unfolding extract_raw [OF len raw] extract_raw [OF len' len(2,3) raw]
    by (simp add: insert_commute)
qed

theorem raw_delivery_synthesizes_fields_witness:
  "(let r = demo_request ''Notification''
              [(''Content-Length'', ''5''), (''x-amz-sns-rawdelivery'', ''true''),
               (''x-amz-sns-message-id'', ''abc'')] ''hello'' in
    \<exists>data. extractJsonBody (demo_env True) r = ([] :: (string, instant) event list, Inr (Some data))
       \<and> data ''Subject'' = Some (JString [])
       \<and> data ''Message'' = Some (JString ''hello'')
       \<and> data ''MessageId'' = Some (JString ''abc'')
       \<and> data ''Timestamp'' = Some (JString ''2026-11-01T12:00:00.25Z''))"
proof -
  let ?r = "demo_request ''Notification''
              [(''Content-Length'', ''5''), (''x-amz-sns-rawdelivery'', ''true''),
               (''x-amz-sns-message-id'', ''abc'')] ''hello''"
  have raw: "Header_Get (Header ?r) ''x-amz-sns-rawdelivery'' = ''true''"
    and len: "Sscanf_d (demo_env True) (Header_Get (Header ?r) ''Content-Length'') = Some 5"
      "(0::int) \<le> 5" "5 \<le> int (length (Body ?r))"
    by (simp_all add: demo_eval)
  have now: "format_amz demo_now = ''2026-11-01T12:00:00.25Z''"
    by (simp add: amz_eval demo_now_def)
  have vals: "take (nat 5) (Body ?r) = ''hello''"
    "Header_Get (Header ?r) ''x-amz-sns-message-id'' = ''abc''"
    "time_Format (demo_env True) (time_Now_UTC (demo_env True)) amzTimeFormat = ''2026-11-01T12:00:00.25Z''"
    by (simp_all add: demo_eval now)
  show ?thesis
    using raw_delivery_synthesizes_fields [OF raw len, where decode = demo_Unmarshal and ?'cb = string]
    unfolding Let_def vals by blast
qed

text \<open>
  C5 as stated fails: a raw delivery without a \<^verbatim>\<open>Content-Length\<close> header yields the nil
  map, not the synthesized fields; and one whose \<^verbatim>\<open>Content-Length\<close> is 2 and whose body is
  \<^verbatim>\<open>hello\<close> yields the message \<^verbatim>\<open>he\<close>, not the body.
\<close>

theorem raw_delivery_without_length_counterexample:
  "snd (extractJsonBody (demo_env True)
          (demo_request ''Notification''
             [(''x-amz-sns-rawdelivery'', ''true''), (''x-amz-sns-message-id'', ''abc'')] ''hello'')
        :: (string, instant) event list \<times> (panic + jmap option)) = Inr None
   \<and> snd (extractJsonBody (demo_env True)
          (demo_request ''Notification''
             [(''Content-Length'', ''2''), (''x-amz-sns-rawdelivery'', ''true''),
              (''x-amz-sns-message-id'', ''abc'')] ''hello'')
        :: (string, instant) event list \<times> (panic + jmap option))
      = Inr (Some [''Subject'' \<mapsto> JString [], ''Message'' \<mapsto> JString ''he'',
                   ''MessageId'' \<mapsto> JString ''abc'',
                   ''Timestamp'' \<mapsto> JString ''2026-11-01T12:00:00.25Z''])"
proof -
  have now: "format_amz demo_now = ''2026-11-01T12:00:00.25Z''"
    by (simp add: amz_eval demo_now_def)
  show ?thesis by (simp add: extractJsonBody_def demo_eval now)
qed

text \<open>
  C6, as amended. For every instant whose year has four digits (0 to 9999), formatting it
  with the fixed pattern and parsing the text with the same pattern gives the instant
  back, nanoseconds included.
\<close>

theorem amz_roundtrip:
  assumes v: "valid_instant t" and y0: "0 \<le> year t" and y1: "year t \<le> 9999"
  shows "parse_amz (format_amz t) = Some t"
proof -
  define y where "y = nat (year t)"
  have y: "year t = int y" "y < 10000"
    using y0 y1 by (simp_all add: y_def)
  have b: "month t < 100" "day t < 100" "hour t < 100" "minute t < 100" "second t < 100"
    using v by (auto simp: valid_instant_def daysIn_def split: if_splits)
  have c: "nsec t < 1000000000" "month t \<noteq> 0" "\<not> 12 < month t" "\<not> 24 \<le> hour t"
    "\<not> 60 \<le> minute t" "\<not> 60 \<le> second t" "\<not> day t < 1" "\<not> daysIn (month t) (int y) < day t"
    using v y by (auto simp: valid_instant_def)
  have f: "format_amz t =
      fixed_digits 4 y @ ''-'' @ fixed_digits 2 (month t) @ ''-'' @ fixed_digits 2 (day t) @ ''T''
      @ fixed_digits 2 (hour t) @ '':'' @ fixed_digits 2 (minute t) @ '':''
      @ fixed_digits 2 (second t) @ appendNano (nsec t) @ ''Z''"
    unfolding format_amz_def y(1) by (simp only: appendInt2 [OF b(1)] appendInt2 [OF b(2)]
      appendInt2 [OF b(3)] appendInt2 [OF b(4)] appendInt2 [OF b(5)] appendInt4 [OF y(2)])
  have sk: "skip (c # rest) [c] = Some rest" for c rest by (simp add: skip_def)
  have "parse_amz (format_amz t) =
     Some \<lparr>year = int y, month = month t, day = day t, hour = hour t, minute = minute t,
           second = second t, nsec = nsec t\<rparr>"
    unfolding f parse_amz_def
    using c by (simp add: parse_year_fixed4 [OF y(2)] getnum_fixed2 [OF b(1)] getnum_fixed2 [OF b(2)]
      getnum_fixed2 [OF b(3)] getnum_fixed2 [OF b(4)] getnum_fixed2 [OF b(5)] sk
      parse_frac_appendNano [OF c(1)] del: fixed_digits.simps)
  then show ?thesis using y(1) by simp
qed

theorem amz_roundtrip_witness:
  "valid_instant demo_now \<and> 0 \<le> year demo_now \<and> year demo_now \<le> 9999
   \<and> parse_amz (format_amz demo_now) = Some demo_now"
proof -
  have h: "valid_instant demo_now" "0 \<le> year demo_now" "year demo_now \<le> 9999"
    by (simp_all add: demo_now_def valid_instant_def daysIn_def)
  show ?thesis using h amz_roundtrip [OF h] by simp
qed

text \<open>
  C6 as stated fails: the first instant of year 10000 is formatted with a five-digit
  year, and the first instant of the year before year 0 with a sign, neither of which the
  four-digit year field of the pattern reads back.
\<close>

theorem amz_roundtrip_year_10000_counterexample:
  "valid_instant \<lparr>year = 10000, month = 1, day = 1, hour = 0, minute = 0, second = 0, nsec = 0\<rparr>
   \<and> format_amz \<lparr>year = 10000, month = 1, day = 1, hour = 0, minute = 0, second = 0, nsec = 0\<rparr>
       = ''10000-01-01T00:00:00Z''
   \<and> parse_amz (format_amz \<lparr>year = 10000, month = 1, day = 1, hour = 0, minute = 0, second = 0, nsec = 0\<rparr>)
       = None
   \<and> valid_instant \<lparr>year = -1, month = 1, day = 1, hour = 0, minute = 0, second = 0, nsec = 0\<rparr>
   \<and> format_amz \<lparr>year = -1, month = 1, day = 1, hour = 0, minute = 0, second = 0, nsec = 0\<rparr>
       = ''-0001-01-01T00:00:00Z''
   \<and> parse_amz (format_amz \<lparr>year = -1, month = 1, day = 1, hour = 0, minute = 0, second = 0, nsec = 0\<rparr>)
       = None"
proof -
  have pad: "replicate 3 c = [c, c, c]" for c :: char
    by (simp add: numeral_3_eq_3)
  show ?thesis by (simp add: amz_eval pad)
qed

text \<open>
  C7. The claim is that every call of \<^verbatim>\<open>AddTopic\<close> stores the entry under the normalized
  path. That holds for every non-empty path (\<open>AddTopic_nonempty\<close>, \<open>AddTopic_twice\<close>); for
  the empty path the slice expression \<^verbatim>\<open>endpoint[:1]\<close> panics and nothing is stored.
\<close>

theorem AddTopic_empty_path_panics:
  "AddTopic s topicARN [] callback = Inl SliceBounds"
  by (simp add: AddTopic_def)

text \<open>
  C8. A request whose path has no registered entry is answered with 404 and the body
  \<^verbatim>\<open>not found\<close> (followed by the newline every response body ends with), whatever its
  headers and body are; the handler performs no effect, so no callback fires.
\<close>

theorem unregistered_path_not_found:
  assumes "topics_at s (URL_Path r) = None"
  shows "ServeHTTP e s r =
           ([], Inr \<lparr>ContentType = ''text/plain; charset=utf-8'', StatusCode = 404,
                     Written = ''not found'' @ [CHR 0x0A]\<rparr>)"
  using assms by (simp add: ServeHTTP_def simpleResponse_def)

theorem unregistered_path_not_found_witness:
  "topics_at demo_server ''/other'' = None
   \<and> ServeHTTP (demo_env True) demo_server
        \<lparr>URL_Path = ''/other'', Header = [''x-amz-sns-topic-arn'' \<mapsto> demo_arn], Body = ''{}''\<rparr>
      = ([], Inr \<lparr>ContentType = ''text/plain; charset=utf-8'', StatusCode = 404,
                  Written = ''not found'' @ [CHR 0x0A]\<rparr>)"
proof -
  have h: "topics_at demo_server ''/other'' = None"
    by (simp add: topics_at_def demo_server_def)
  show ?thesis
    using h unregistered_path_not_found
      [of demo_server "\<lparr>URL_Path = ''/other'', Header = [''x-amz-sns-topic-arn'' \<mapsto> demo_arn], Body = ''{}''\<rparr>" "demo_env True"]
    by simp
qed

text \<open>
  C9. For a request to a registered path, the handler answers 400 with the body
  \<^verbatim>\<open>bad request\<close> and performs no effect (so no callback fires) exactly when the
  channel-identity header differs, as a string, from the channel id of the registration.
\<close>

theorem channel_mismatch_bad_request:
  assumes "topics_at s (URL_Path r) = Some td"
  shows "ServeHTTP e s r =
           ([], Inr \<lparr>ContentType = ''text/plain; charset=utf-8'', StatusCode = 400,
                     Written = ''bad request'' @ [CHR 0x0A]\<rparr>)
         \<longleftrightarrow> TopicARN td \<noteq> Header_Get (Header r) ''x-amz-sns-topic-arn''"
proof (cases "TopicARN td = Header_Get (Header r) ''x-amz-sns-topic-arn''")
  case False
  then show ?thesis using assms by (simp add: ServeHTTP_def simpleResponse_def)
next
  case True
  have "snd (ServeHTTP e s r) \<noteq> Inr \<lparr>ContentType = ''text/plain; charset=utf-8'', StatusCode = 400,
                     Written = ''bad request'' @ [CHR 0x0A]\<rparr>"
    using assms True
    by (auto simp: ServeHTTP_def simpleResponse_def Let_def split: prod.splits sum.splits)
  then show ?thesis using True by auto
qed

theorem channel_mismatch_bad_request_witness:
  "topics_at demo_server ''/sns'' = Some \<lparr>TopicARN = demo_arn, Callback = ''JustPrint''\<rparr>
   \<and> ServeHTTP (demo_env True) demo_server
        \<lparr>URL_Path = ''/sns'', Header = [''x-amz-sns-topic-arn'' \<mapsto> ''arn:aws:sns:us-east-1:123456789012:Demo''],
         Body = ''{}''\<rparr>
      = ([], Inr \<lparr>ContentType = ''text/plain; charset=utf-8'', StatusCode = 400,
                  Written = ''bad request'' @ [CHR 0x0A]\<rparr>)"
proof -
  have h: "topics_at demo_server ''/sns'' = Some \<lparr>TopicARN = demo_arn, Callback = ''JustPrint''\<rparr>"
    by (simp add: topics_at_def demo_server_def)
  show ?thesis
    using h channel_mismatch_bad_request
      [of demo_server "\<lparr>URL_Path = ''/sns'', Header = [''x-amz-sns-topic-arn'' \<mapsto> ''arn:aws:sns:us-east-1:123456789012:Demo''], Body = ''{}''\<rparr>"
          "\<lparr>TopicARN = demo_arn, Callback = ''JustPrint''\<rparr>" "demo_env True"]
    by (simp add: Header_Get_def demo_arn_def)
qed

text \<open>
  C10. The claim is that in raw-delivery mode a \<^verbatim>\<open>Content-Length\<close> header that is
  missing or not scannable, or a body that does not supply that many bytes, makes
  extraction return the nil map, so that no callback fires. That holds while the length is
  within the allocation limit (\<open>raw_extraction_failure_no_data\<close>). For a raw delivery
  whose \<^verbatim>\<open>Content-Length\<close> is above the limit and whose body is shorter, \<^verbatim>\<open>make\<close>
  panics instead: extraction does not return, and the handler writes no response.
\<close>

theorem raw_delivery_huge_length_panics:
  "(extractJsonBody (demo_env True)
      (demo_request ''Notification''
         [(''Content-Length'', ''9223372036854775807''), (''x-amz-sns-rawdelivery'', ''true''),
          (''x-amz-sns-message-id'', ''abc'')] ''hello'')
     :: (string, instant) event list \<times> (panic + jmap option)) = ([], Inl MakeSliceLen)
   \<and> ServeHTTP (demo_env True) demo_server
      (demo_request ''Notification''
         [(''Content-Length'', ''9223372036854775807''), (''x-amz-sns-rawdelivery'', ''true''),
          (''x-amz-sns-message-id'', ''abc'')] ''hello'')
     = ([], Inl MakeSliceLen)"
  by (simp add: ServeHTTP_def processMessage_def extractJsonBody_def demo_eval)

end
